theory Spec2Isabelle
  imports Main "HOL-Library.Word" "HOL-Library.Multiset"
begin

section \<open>State sync reactor (internal/statesync/reactor.go)\<close>

text \<open>
  A shallow embedding of the state sync reactor. Go's fixed-width integers are words
  (\<open>int64\<close> is read through \<open>sint\<close>, \<open>uint64\<close> and \<open>uint32\<close> through the unsigned
  order of words). Calls into collaborators that are not part of \<^verbatim>\<open>reactor.go\<close> (the
  block queue, the peer list, the stores, the application connection, the p2p channels)
  are recorded, in program order, in a trace of \<open>call\<close>s; what such a call returns is
  supplied by an environment.
\<close>

subsection \<open>Basic types\<close>

type_synonym int64 = "64 word"
type_synonym uint64 = "64 word"
type_synonym uint32 = "32 word"
type_synonym byte = "8 word"
type_synonym bytes = "byte list"
type_synonym NodeID = string
type_synonym ChannelID = "16 word"

subsection \<open>Channel descriptors\<close>

definition SnapshotChannel :: ChannelID where "SnapshotChannel = 0x60"
definition ChunkChannel :: ChannelID where "ChunkChannel = 0x61"
definition LightBlockChannel :: ChannelID where "LightBlockChannel = 0x62"
definition ParamsChannel :: ChannelID where "ParamsChannel = 0x63"

definition recentSnapshots :: nat where "recentSnapshots = 10"
definition snapshotMsgSize :: int where "snapshotMsgSize = 4000000"
definition chunkMsgSize :: int where "chunkMsgSize = 16000000"
definition lightBlockMsgSize :: int where "lightBlockMsgSize = 10000000"
definition paramMsgSize :: int where "paramMsgSize = 100000"
definition maxLightBlockRequestRetries :: int where "maxLightBlockRequestRetries = 20"

record ChannelDescriptor =
  ID :: byte
  Priority :: int
  SendQueueCapacity :: int
  RecvMessageCapacity :: int
  RecvBufferCapacity :: int
  MaxSendBytes :: int

text \<open>
  \<open>ChannelShims\<close>: the map from channel id to descriptor (the \<open>MsgType\<close> of every shim
  is a fresh \<open>ssproto.Message\<close> and carries no data). \<open>byte(c)\<close> is the conversion of
  the channel id to eight bits.
\<close>

definition ChannelShims :: "ChannelID \<rightharpoonup> ChannelDescriptor" where
  "ChannelShims =
     [SnapshotChannel \<mapsto>
        \<lparr>ID = ucast SnapshotChannel, Priority = 6, SendQueueCapacity = 10,
         RecvMessageCapacity = snapshotMsgSize, RecvBufferCapacity = 128,
         MaxSendBytes = 400\<rparr>,
      ChunkChannel \<mapsto>
        \<lparr>ID = ucast ChunkChannel, Priority = 3, SendQueueCapacity = 4,
         RecvMessageCapacity = chunkMsgSize, RecvBufferCapacity = 128,
         MaxSendBytes = 400\<rparr>,
      LightBlockChannel \<mapsto>
        \<lparr>ID = ucast LightBlockChannel, Priority = 5, SendQueueCapacity = 10,
         RecvMessageCapacity = lightBlockMsgSize, RecvBufferCapacity = 128,
         MaxSendBytes = 400\<rparr>,
      ParamsChannel \<mapsto>
        \<lparr>ID = ucast ParamsChannel, Priority = 2, SendQueueCapacity = 10,
         RecvMessageCapacity = paramMsgSize, RecvBufferCapacity = 128,
         MaxSendBytes = 400\<rparr>]"

subsection \<open>Errors\<close>

text \<open>
  Go error values. \<open>Errorf m args\<close> is \<open>fmt.Errorf\<close> with the format \<open>m\<close> and \<open>%v\<close>
  arguments; \<open>Errorw m err\<close> is \<open>fmt.Errorf\<close> whose format \<open>m\<close> ends in \<open>: %w\<close>, wrapping
  \<open>err\<close> (which may be nil). A value of type \<open>error option\<close> is a Go \<open>error\<close>, \<open>None\<close> being
  nil.
\<close>

datatype error =
    Canceled
  | DeadlineExceeded
  | ErrNoConnectedPeers
  | ErrNew string
  | Errorf string "bytes list"
  | Errorw string "error option"

text \<open>\<open>errors.Is\<close>: follows the chain of wrapped errors.\<close>

fun errors_Is :: "error option \<Rightarrow> error \<Rightarrow> bool" where
  "errors_Is None target = False"
| "errors_Is (Some (Errorw m e)) target = (Errorw m e = target \<or> errors_Is e target)"
| "errors_Is (Some e) target = (e = target)"

text \<open>
  What a call does: it returns a value, it panics, or it never returns (it waits on a
  channel, a ticker or a mutex that nothing releases).
\<close>

datatype 'a outcome = Returns 'a | Panics | Blocks

subsection \<open>Snapshots, chunks and messages\<close>

record snapshot =
  Height :: uint64
  Format :: uint32
  Chunks :: uint32
  Hash :: bytes
  Metadata :: bytes

record chunk =
  Height :: uint64
  Format :: uint32
  Index :: uint32
  Chunk :: "bytes option"
  Sender :: NodeID

subsection \<open>Light blocks and state\<close>

text \<open>
  Times are nanoseconds since the zero \<open>time.Time\<close>; a \<open>time.Duration\<close> is an \<open>int64\<close> of
  nanoseconds. Validator sets and commits are passed on by the reactor and never
  inspected.
\<close>

type_synonym Time = int
type_synonym Duration = int64
type_synonym ValidatorSet = "(string \<times> int) list"
type_synonym Commit = "bytes list"

definition Time_Add :: "Time \<Rightarrow> Duration \<Rightarrow> Time" where
  "Time_Add t d = t + sint d"

record BlockID =
  Hash :: bytes
  PartSetHeader :: "uint32 \<times> bytes"

record Header =
  Height :: int64
  LastBlockID :: BlockID
  ValidatorsHash :: bytes
  NextValidatorsHash :: bytes

record SignedHeader =
  Header :: Header
  Commit :: Commit

text \<open>
  A light block whose pointers are all set: the block queue only holds blocks that went
  through \<open>ValidateBasic\<close> in a fetch worker, which rejects a missing signed header or
  validator set.
\<close>

record LightBlock =
  SignedHeader :: SignedHeader
  ValidatorSet :: ValidatorSet

abbreviation LightBlock_Height :: "LightBlock \<Rightarrow> int64" where
  "LightBlock_Height lb \<equiv> Header.Height (Header (SignedHeader lb))"

record lightBlockResponse =
  block :: LightBlock
  peer :: NodeID

record EvidenceParams =
  MaxAgeNumBlocks :: int64
  MaxAgeDuration :: Duration

record ConsensusParams =
  Evidence :: EvidenceParams

record State =
  ChainID :: string
  InitialHeight :: int64
  LastBlockHeight :: int64
  LastBlockID :: BlockID
  LastBlockTime :: Time
  ConsensusParams :: ConsensusParams

text \<open>\<open>sm.State{}\<close>, \<open>types.BlockID{}\<close>: the zero values.\<close>

definition emptyBlockID :: BlockID where
  "emptyBlockID = \<lparr>BlockID.Hash = [], PartSetHeader = (0, [])\<rparr>"

definition emptyState :: State where
  "emptyState =
     \<lparr>ChainID = [], InitialHeight = 0, LastBlockHeight = 0,
      State.LastBlockID = emptyBlockID, LastBlockTime = 0,
      ConsensusParams = \<lparr>Evidence = \<lparr>MaxAgeNumBlocks = 0, MaxAgeDuration = 0\<rparr>\<rparr>\<rparr>"

datatype Message =
    SnapshotsRequest
  | SnapshotsResponse uint64 uint32 uint32 bytes bytes
  | ChunkRequest uint64 uint32 uint32
  | ChunkResponse uint64 uint32 uint32 "bytes option" bool
  | LightBlockRequest uint64
  | LightBlockResponse "LightBlock option"
  | ParamsRequest uint64
  | ParamsResponse uint64 ConsensusParams

record Envelope =
  From :: NodeID
  To :: NodeID
  Broadcast :: bool
  Message :: Message

subsection \<open>Calls into collaborators\<close>

text \<open>
  The trace entries: one per call the reactor makes into the block queue, the peer list,
  the dispatcher, the stores, the state providers, the syncer, the application and the
  channels, with the arguments of the call. Of the logger only \<open>Error\<close> entries are
  recorded.
\<close>

datatype call =
    NewBlockQueue int64 int64 int64 Time int
  | QueueRetry int64
  | QueueAdd lightBlockResponse
  | QueueSuccess int64
  | QueueClose
  | PeersPop NodeID
  | PeersAppend NodeID
  | PeersRemove NodeID
  | DispatcherLightBlock int64 NodeID
  | Sleep int
  | BlockChError NodeID error
  | SaveSignedHeader SignedHeader BlockID
  | SaveValidatorSets int64 int64 "ValidatorSet option"
  | NewP2PStateProvider string int64 "NodeID list"
  | NewRPCStateProvider string int64
  | SyncAny
  | Bootstrap State
  | SaveSeenCommit int64 Commit
  | LoggerError string "error option"
  | ListSnapshotsSync
  | LoadSnapshotChunkSync uint64 uint32 uint32
  | SnapshotChOut Envelope
  | ChunkChOut Envelope
  | AddSnapshot NodeID snapshot
  | AddChunk chunk
  | LoadConsensusParams int64
  | ParamsChOut Envelope
  | ParamsRecvChOffer ConsensusParams
  | SyncerAddPeer NodeID
  | SyncerRemovePeer NodeID
  | AddProvider NodeID string

subsection \<open>Backfill: the verifier loop\<close>

text \<open>
  What the verifier loop needs from outside: the hash of a header (\<open>types.Header.Hash\<close>)
  and what the two store calls return.
\<close>

record stores =
  HeaderHash :: "Header \<Rightarrow> bytes"
  SaveSignedHeader_ret :: "SignedHeader \<Rightarrow> BlockID \<Rightarrow> error option"
  SaveValidatorSets_ret :: "int64 \<Rightarrow> int64 \<Rightarrow> ValidatorSet option \<Rightarrow> error option"

text \<open>The local variables of \<open>backfill\<close> that the verifier loop reads and writes.\<close>

record verifier =
  trustedBlockID :: BlockID
  lastValidatorSet :: "ValidatorSet option"
  lastChangeHeight :: int64
  calls :: "call list"

definition emit :: "call list \<Rightarrow> verifier \<Rightarrow> verifier" where
  "emit cs v = v\<lparr>calls := calls v @ cs\<rparr>"

text \<open>
  The cases of the loop's \<open>select\<close>: which one is taken, and the value received, is
  decided outside \<open>backfill\<close>. \<open>QueueDone err terminal\<close> carries what \<open>queue.error()\<close> and
  \<open>queue.terminal\<close> hold when the queue's done channel is closed.
\<close>

datatype event =
    CloseCh
  | CtxDone
  | VerifyNext lightBlockResponse
  | QueueDone "error option" "LightBlock option"

text \<open>
  The validator-set check of one verified block. The first component is \<open>Some err\<close>
  when the store call failed and \<open>backfill\<close> returns \<open>err\<close>.
\<close>

definition saveValidatorChange ::
  "stores \<Rightarrow> verifier \<Rightarrow> LightBlock \<Rightarrow> error option \<times> verifier" where
  "saveValidatorChange env v b =
     (let hdr = Header (SignedHeader b) in
      if lastValidatorSet v \<noteq> None \<and> ValidatorsHash hdr \<noteq> NextValidatorsHash hdr then
        (let v1 = emit [SaveValidatorSets (Header.Height hdr + 1) (lastChangeHeight v)
                          (lastValidatorSet v)] v
         in case SaveValidatorSets_ret env (Header.Height hdr + 1) (lastChangeHeight v)
                   (lastValidatorSet v) of
              Some err \<Rightarrow> (Some err, v1)
            | None \<Rightarrow> (None, v1\<lparr>lastChangeHeight := Header.Height hdr\<rparr>))
      else (None, v))"

text \<open>
  The body of \<open>case resp := <-queue.verifyNext()\<close>. The first component is \<open>None\<close> when
  the loop goes on and \<open>Some err\<close> when \<open>backfill\<close> returns \<open>err\<close>.
\<close>

definition verifyNext ::
  "stores \<Rightarrow> verifier \<Rightarrow> lightBlockResponse \<Rightarrow> error option \<times> verifier" where
  "verifyNext env v resp =
     (let w = BlockID.Hash (trustedBlockID v);
          g = HeaderHash env (Header (SignedHeader (block resp)))
      in
      if w \<noteq> g then
        (None,
         emit [BlockChError (peer resp)
                 (Errorf ''received invalid light block. Expected hash %v, got: %v'' [w, g]),
               QueueRetry (LightBlock_Height (block resp))] v)
      else
        (let v1 = emit [SaveSignedHeader (SignedHeader (block resp)) (trustedBlockID v)] v
         in case SaveSignedHeader_ret env (SignedHeader (block resp)) (trustedBlockID v) of
              Some err \<Rightarrow> (Some err, v1)
            | None \<Rightarrow>
               (case saveValidatorChange env v1 (block resp) of
                  (Some err, v2) \<Rightarrow> (Some err, v2)
                | (None, v2) \<Rightarrow>
                    (None,
                     (emit [QueueSuccess (LightBlock_Height (block resp))]
                        (v2\<lparr>trustedBlockID :=
                              Header.LastBlockID (Header (SignedHeader (block resp)))\<rparr>))
                       \<lparr>lastValidatorSet := Some (ValidatorSet (block resp))\<rparr>))))"

text \<open>
  The body of \<open>case <-queue.done()\<close>. Reading \<open>queue.terminal.Height\<close> of a nil
  \<open>terminal\<close> panics.
\<close>

definition queueDone ::
  "stores \<Rightarrow> verifier \<Rightarrow> error option \<Rightarrow> LightBlock option \<Rightarrow> error option outcome \<times> verifier"
  where
  "queueDone env v qerr terminal =
     (case qerr of
        Some err \<Rightarrow> (Returns (Some err), v)
      | None \<Rightarrow>
         (case terminal of
            None \<Rightarrow> (Panics, v)
          | Some t \<Rightarrow>
             (Returns (SaveValidatorSets_ret env (LightBlock_Height t) (lastChangeHeight v)
                         (lastValidatorSet v)),
              emit [SaveValidatorSets (LightBlock_Height t) (lastChangeHeight v)
                      (lastValidatorSet v)] v)))"

text \<open>
  The verifier loop \<open>for { select { ... } }\<close> over the cases taken, in order. When the
  cases are used up the loop waits in \<open>select\<close>: \<open>Blocks\<close>.
\<close>

fun verifyLoop :: "stores \<Rightarrow> verifier \<Rightarrow> event list \<Rightarrow> error option outcome \<times> verifier" where
  "verifyLoop env v [] = (Blocks, v)"
| "verifyLoop env v (CloseCh # es) = (Returns None, emit [QueueClose] v)"
| "verifyLoop env v (CtxDone # es) = (Returns None, emit [QueueClose] v)"
| "verifyLoop env v (VerifyNext resp # es) =
     (case verifyNext env v resp of
        (Some err, v') \<Rightarrow> (Returns (Some err), v')
      | (None, v') \<Rightarrow> verifyLoop env v' es)"
| "verifyLoop env v (QueueDone qerr terminal # es) = queueDone env v qerr terminal"

text \<open>
  \<open>backfill\<close>: the queue is created, the fetch workers are started (they run beside the
  verifier and meet it only through the queue, see \<open>fetchWorker\<close>), and the verifier loop
  runs in the caller.
\<close>

definition backfill ::
  "stores \<Rightarrow> string \<Rightarrow> int64 \<Rightarrow> int64 \<Rightarrow> int64 \<Rightarrow> BlockID \<Rightarrow> Time \<Rightarrow> event list
     \<Rightarrow> error option outcome \<times> verifier" where
  "backfill env chainID startHeight stopHeight initialHeight trusted stopTime es =
     verifyLoop env
       \<lparr>trustedBlockID = trusted, lastValidatorSet = None,
        lastChangeHeight = startHeight,
        calls = [NewBlockQueue startHeight stopHeight initialHeight stopTime
                   maxLightBlockRequestRetries]\<rparr> es"

definition Backfill :: "stores \<Rightarrow> State \<Rightarrow> event list \<Rightarrow> error option outcome \<times> verifier" where
  "Backfill env state es =
     (let params = Evidence (ConsensusParams state);
          stopHeight = LastBlockHeight state - MaxAgeNumBlocks params;
          stopTime = Time_Add (LastBlockTime state) (- MaxAgeDuration params);
          (stopHeight, stopTime) =
             (if stopHeight <s InitialHeight state
              then (InitialHeight state, LastBlockTime state)
              else (stopHeight, stopTime))
      in backfill env (ChainID state) (LastBlockHeight state) stopHeight (InitialHeight state)
           (State.LastBlockID state) stopTime es)"

subsection \<open>Backfill: the fetch workers\<close>

text \<open>\<open>1 * time.Second\<close>, in nanoseconds.\<close>

definition sleepTime :: int where "sleepTime = 1000000000"

text \<open>
  One pass of a worker through \<open>case height := <-queue.nextHeight()\<close>: \<open>p\<close> is the peer
  that \<open>peers.Pop\<close> gave, \<open>lb\<close> and \<open>err\<close> are what \<open>dispatcher.LightBlock\<close> returned, and
  \<open>validateBasic\<close> is \<open>LightBlock.ValidateBasic\<close>. The result says whether the worker
  returns (\<open>True\<close>) or goes round the loop again, and lists the calls made. The height of
  a light block is read only after \<open>ValidateBasic\<close> accepted it.
\<close>

definition fetchBlock ::
  "(LightBlock \<Rightarrow> string \<Rightarrow> error option) \<Rightarrow> string \<Rightarrow> int64 \<Rightarrow> NodeID
     \<Rightarrow> LightBlock option \<Rightarrow> error option \<Rightarrow> bool \<times> call list" where
  "fetchBlock validateBasic cid height p lb err =
     (let cs = [PeersPop p, DispatcherLightBlock height p, PeersAppend p] in
      if errors_Is err Canceled then (True, cs)
      else if err \<noteq> None then
        (False,
         cs @ [QueueRetry height] @
           (if errors_Is err ErrNoConnectedPeers then [Sleep sleepTime] else []))
      else
        (case lb of
           None \<Rightarrow> (False, cs @ [QueueRetry height, PeersRemove p])
         | Some b \<Rightarrow>
            (let verr = validateBasic b cid in
             if verr \<noteq> None \<or> LightBlock_Height b \<noteq> height then
               (False,
                cs @ [QueueRetry height,
                      BlockChError p (Errorw ''received invalid light block'' verr)])
             else (False, cs @ [QueueAdd \<lparr>block = b, peer = p\<rparr>]))))"

text \<open>The cases of a worker's \<open>select\<close>, and the worker's loop over them.\<close>

datatype fetch_event =
    NextHeight int64 NodeID "LightBlock option" "error option"
  | FetchQueueDone

fun fetchWorker ::
  "(LightBlock \<Rightarrow> string \<Rightarrow> error option) \<Rightarrow> string \<Rightarrow> fetch_event list \<Rightarrow> bool \<times> call list"
  where
  "fetchWorker validateBasic cid [] = (False, [])"
| "fetchWorker validateBasic cid (FetchQueueDone # es) = (True, [])"
| "fetchWorker validateBasic cid (NextHeight height p lb err # es) =
     (case fetchBlock validateBasic cid height p lb err of
        (True, cs) \<Rightarrow> (True, cs)
      | (False, cs) \<Rightarrow>
         (case fetchWorker validateBasic cid es of (ret, cs') \<Rightarrow> (ret, cs @ cs')))"

subsection \<open>The reactor and its mutex\<close>

text \<open>
  The reader/writer mutex as its state. Taking it gives \<open>None\<close> when the caller has to
  wait. \<open>Unlock\<close> and \<open>RUnlock\<close> are only called by a holder.
\<close>

datatype RWMutex = Unlocked | Locked | RLocked nat

definition Lock :: "RWMutex \<Rightarrow> RWMutex option" where
  "Lock m = (if m = Unlocked then Some Locked else None)"

definition Unlock :: "RWMutex \<Rightarrow> RWMutex" where
  "Unlock m = Unlocked"

definition RLock :: "RWMutex \<Rightarrow> RWMutex option" where
  "RLock m =
     (case m of
        Unlocked \<Rightarrow> Some (RLocked 1)
      | RLocked n \<Rightarrow> Some (RLocked (Suc n))
      | Locked \<Rightarrow> None)"

definition RUnlock :: "RWMutex \<Rightarrow> RWMutex" where
  "RUnlock m = (case m of RLocked (Suc (Suc n)) \<Rightarrow> RLocked (Suc n) | _ \<Rightarrow> Unlocked)"

datatype StateProvider = StateProviderP2P | StateProviderRPC

text \<open>\<open>newSyncer\<close> keeps the state provider it is given.\<close>

datatype syncer = Syncer "StateProvider option"

text \<open>
  The fields of the reactor that the modelled methods read or write, and the trace
  \<open>log\<close> of the calls made.
\<close>

record Reactor =
  chainID :: string
  initialHeight :: int64
  UseP2P :: bool
  mtx :: RWMutex
  syncer :: "syncer option"
  providers :: "NodeID \<rightharpoonup> NodeID \<times> string"
  stateProvider :: "StateProvider option"
  log :: "call list"

definition say :: "call list \<Rightarrow> Reactor \<Rightarrow> Reactor" where
  "say cs r = r\<lparr>log := log r @ cs\<rparr>"

subsection \<open>Sync\<close>

text \<open>
  \<open>waitForEnoughPeers\<close> over the cases of its \<open>select\<close>: the context is done, or the
  ticker fires and \<open>peers.Len()\<close> is read. \<open>True\<close>: it returns; \<open>False\<close>: the cases ran out
  and it still waits.
\<close>

datatype tick = WaitCtxDone | Tick int

fun waitForEnoughPeers :: "tick list \<Rightarrow> int \<Rightarrow> bool" where
  "waitForEnoughPeers [] numPeers = False"
| "waitForEnoughPeers (WaitCtxDone # ts) numPeers = True"
| "waitForEnoughPeers (Tick len # ts) numPeers =
     (if len \<ge> numPeers then True else waitForEnoughPeers ts numPeers)"

text \<open>What the calls made by \<open>Sync\<close> return.\<close>

record sync_env =
  wait_ticks :: "tick list"
  peers_All :: "NodeID list"
  NewStateProvider_ret :: "StateProvider option \<times> error option"
  SyncAny_ret :: "State \<times> Commit \<times> error option"
  Bootstrap_ret :: "State \<Rightarrow> error option"
  SaveSeenCommit_ret :: "int64 \<Rightarrow> Commit \<Rightarrow> error option"
  backfill_stores :: stores
  backfill_events :: "event list"

definition initStateProvider :: "sync_env \<Rightarrow> Reactor \<Rightarrow> string \<Rightarrow> int64 \<Rightarrow> error option \<times> Reactor"
  where
  "initStateProvider env r cid initial =
     (let (sp, err) = NewStateProvider_ret env in
      if UseP2P r then
        (let r1 = say [NewP2PStateProvider cid initial (peers_All env)] (r\<lparr>stateProvider := sp\<rparr>)
         in if err \<noteq> None
            then (Some (Errorw ''failed to initialize P2P state provider'' err), r1)
            else (None, r1))
      else
        (let r1 = say [NewRPCStateProvider cid initial] (r\<lparr>stateProvider := sp\<rparr>)
         in if err \<noteq> None
            then (Some (Errorw ''failed to initialize RPC state provider'' err), r1)
            else (None, r1)))"

text \<open>
  \<open>Sync\<close> from the call of \<open>SyncAny\<close> to its last \<open>return\<close>. The calls of the backfill
  verifier are appended to the reactor's trace.
\<close>

definition syncBody :: "sync_env \<Rightarrow> Reactor \<Rightarrow> (State \<times> error option) outcome \<times> Reactor" where
  "syncBody env r =
     (let (state, commit, err) = SyncAny_ret env;
          r1 = say [SyncAny] r
      in
      if err \<noteq> None then (Returns (emptyState, err), r1)
      else
        (let err = Bootstrap_ret env state;
             r2 = say [Bootstrap state] r1
         in
         if err \<noteq> None then
           (Returns (emptyState, Some (Errorw ''failed to bootstrap node with new state'' err)),
            r2)
         else
           (let err = SaveSeenCommit_ret env (LastBlockHeight state) commit;
                r3 = say [SaveSeenCommit (LastBlockHeight state) commit] r2
            in
            if err \<noteq> None then
              (Returns (emptyState, Some (Errorw ''failed to store last seen commit'' err)), r3)
            else
              (case Backfill (backfill_stores env) state (backfill_events env) of
                 (Returns err, v) \<Rightarrow>
                   (Returns (state, None),
                    say (calls v @
                         (if err \<noteq> None
                          then [LoggerError ''backfill failed. Proceeding optimistically...'' err]
                          else [])) r3)
               | (Panics, v) \<Rightarrow> (Panics, say (calls v) r3)
               | (Blocks, v) \<Rightarrow> (Blocks, say (calls v) r3)))))"

text \<open>The deferred function of \<open>Sync\<close>.\<close>

definition syncDeferred :: "Reactor \<Rightarrow> Reactor option" where
  "syncDeferred r =
     (case Lock (mtx r) of
        None \<Rightarrow> None
      | Some m \<Rightarrow> Some (r\<lparr>mtx := Unlock m, syncer := None, stateProvider := None\<rparr>))"

definition Sync :: "sync_env \<Rightarrow> Reactor \<Rightarrow> (State \<times> error option) outcome \<times> Reactor" where
  "Sync env r =
     (if \<not> waitForEnoughPeers (wait_ticks env) 2 then (Blocks, r)
      else
        (case Lock (mtx r) of
           None \<Rightarrow> (Blocks, r)
         | Some m \<Rightarrow>
            (let r1 = r\<lparr>mtx := m\<rparr> in
             if syncer r1 \<noteq> None then
               (Returns (emptyState, Some (ErrNew ''a state sync is already in progress'')),
                r1\<lparr>mtx := Unlock (mtx r1)\<rparr>)
             else
               (case initStateProvider env r1 (chainID r1) (initialHeight r1) of
                  (Some err, r2) \<Rightarrow> (Returns (emptyState, Some err), r2)
                | (None, r2) \<Rightarrow>
                   (let r3 = r2\<lparr>syncer := Some (Syncer (stateProvider r2))\<rparr>;
                        r4 = r3\<lparr>mtx := Unlock (mtx r3)\<rparr>
                    in case syncBody env r4 of
                         (Blocks, r5) \<Rightarrow> (Blocks, r5)
                       | (res, r5) \<Rightarrow>
                          (case syncDeferred r5 of
                             None \<Rightarrow> (Blocks, r5)
                           | Some r6 \<Rightarrow> (res, r6)))))))"

subsection \<open>Serving and receiving snapshots and chunks\<close>

text \<open>
  What the application and the syncer return, and \<open>sort.Slice\<close>. The application's
  \<open>abci.Snapshot\<close> and the reactor's \<open>snapshot\<close> have the same five fields and share the
  record \<open>snapshot\<close>.
\<close>

record app_env =
  sort_Slice :: "(snapshot \<Rightarrow> snapshot \<Rightarrow> bool) \<Rightarrow> snapshot list \<Rightarrow> snapshot list"
  ListSnapshots_ret :: "error + snapshot list"
  LoadSnapshotChunk_ret :: "uint64 \<Rightarrow> uint32 \<Rightarrow> uint32 \<Rightarrow> error + bytes option"
  AddSnapshot_ret :: "NodeID \<Rightarrow> snapshot \<Rightarrow> error option"
  AddChunk_ret :: "chunk \<Rightarrow> error option"
  LoadConsensusParams_ret :: "int64 \<Rightarrow> error + ConsensusParams"

text \<open>The \<open>less\<close> function given to \<open>sort.Slice\<close>, on the elements compared.\<close>

definition snapshot_less :: "snapshot \<Rightarrow> snapshot \<Rightarrow> bool" where
  "snapshot_less a b =
     (if snapshot.Height a > snapshot.Height b then True
      else if snapshot.Height a = snapshot.Height b \<and> snapshot.Format a > snapshot.Format b
      then True
      else False)"

text \<open>The loop of \<open>recentSnapshots\<close> over the sorted slice, from index \<open>i\<close> on.\<close>

fun collectSnapshots :: "nat \<Rightarrow> snapshot list \<Rightarrow> snapshot list" where
  "collectSnapshots i [] = []"
| "collectSnapshots i (s # ss) =
     (if i \<ge> recentSnapshots then []
      else \<lparr>snapshot.Height = snapshot.Height s, Format = snapshot.Format s,
             Chunks = Chunks s, Hash = snapshot.Hash s, Metadata = Metadata s\<rparr>
           # collectSnapshots (Suc i) ss)"

text \<open>
  The method \<open>recentSnapshots(n)\<close>; its parameter only sizes the slice it allocates, the
  loop stops at the constant \<open>recentSnapshots\<close>.
\<close>

definition Reactor_recentSnapshots :: "app_env \<Rightarrow> nat \<Rightarrow> error + snapshot list" where
  "Reactor_recentSnapshots env n =
     (case ListSnapshots_ret env of
        Inl err \<Rightarrow> Inl err
      | Inr snapshots \<Rightarrow> Inr (collectSnapshots 0 (sort_Slice env snapshot_less snapshots)))"

text \<open>
  An envelope that the reactor sends names only its recipient and its message. A send
  on an \<open>Out\<close> channel is recorded in the trace.
\<close>

definition reply :: "NodeID \<Rightarrow> Message \<Rightarrow> Envelope" where
  "reply to m = \<lparr>From = [], To = to, Broadcast = False, Message = m\<rparr>"

definition handleSnapshotMessage ::
  "app_env \<Rightarrow> Reactor \<Rightarrow> Envelope \<Rightarrow> error option outcome \<times> Reactor" where
  "handleSnapshotMessage env r envelope =
     (case Message envelope of
        SnapshotsRequest \<Rightarrow>
          (case Reactor_recentSnapshots env recentSnapshots of
             Inl err \<Rightarrow>
               (Returns None,
                say [ListSnapshotsSync, LoggerError ''failed to fetch snapshots'' (Some err)] r)
           | Inr snapshots \<Rightarrow>
               (Returns None,
                say (ListSnapshotsSync #
                     map (\<lambda>s. SnapshotChOut
                            (reply (From envelope)
                               (SnapshotsResponse (snapshot.Height s) (snapshot.Format s)
                                  (Chunks s) (snapshot.Hash s) (Metadata s))))
                       snapshots) r))
      | SnapshotsResponse h f c hash md \<Rightarrow>
          (case RLock (mtx r) of
             None \<Rightarrow> (Blocks, r)
           | Some m \<Rightarrow>
              (let r1 = r\<lparr>mtx := m\<rparr> in
               if syncer r1 = None then (Returns None, r1\<lparr>mtx := RUnlock (mtx r1)\<rparr>)
               else
                 (let s = \<lparr>snapshot.Height = h, Format = f, Chunks = c, Hash = hash,
                           Metadata = md\<rparr>;
                      err = AddSnapshot_ret env (From envelope) s;
                      r2 = say (AddSnapshot (From envelope) s #
                                (if err \<noteq> None
                                 then [LoggerError ''failed to add snapshot'' err] else [])) r1
                  in (Returns None, r2\<lparr>mtx := RUnlock (mtx r2)\<rparr>))))
      | _ \<Rightarrow> (Returns (Some (Errorf ''received unknown message: %T'' [])), r))"

definition handleChunkMessage ::
  "app_env \<Rightarrow> Reactor \<Rightarrow> Envelope \<Rightarrow> error option outcome \<times> Reactor" where
  "handleChunkMessage env r envelope =
     (case Message envelope of
        ChunkRequest h f i \<Rightarrow>
          (case LoadSnapshotChunk_ret env h f i of
             Inl err \<Rightarrow>
               (Returns None,
                say [LoadSnapshotChunkSync h f i,
                     LoggerError ''failed to load chunk'' (Some err)] r)
           | Inr c \<Rightarrow>
               (Returns None,
                say [LoadSnapshotChunkSync h f i,
                     ChunkChOut (reply (From envelope) (ChunkResponse h f i c (c = None)))] r))
      | ChunkResponse h f i c missing \<Rightarrow>
          (case RLock (mtx r) of
             None \<Rightarrow> (Blocks, r)
           | Some m \<Rightarrow>
              (let r1 = r\<lparr>mtx := m\<rparr> in
               if syncer r1 = None then (Returns None, r1\<lparr>mtx := RUnlock (mtx r1)\<rparr>)
               else
                 (let ch = \<lparr>chunk.Height = h, Format = f, Index = i, Chunk = c,
                            Sender = From envelope\<rparr>;
                      err = AddChunk_ret env ch;
                      r2 = say (AddChunk ch #
                                (if err \<noteq> None
                                 then [LoggerError ''failed to add chunk'' err] else [])) r1
                  in (Returns None, r2\<lparr>mtx := RUnlock (mtx r2)\<rparr>))))
      | _ \<Rightarrow> (Returns (Some (Errorf ''received unknown message: %T'' [])), r))"

text \<open>
  \<open>handleParamsMessage\<close>; \<open>int64(msg.Height)\<close> keeps the 64 bits. The send to the P2P
  state provider does not wait.
\<close>

definition handleParamsMessage ::
  "app_env \<Rightarrow> Reactor \<Rightarrow> Envelope \<Rightarrow> error option outcome \<times> Reactor" where
  "handleParamsMessage env r envelope =
     (case Message envelope of
        ParamsRequest h \<Rightarrow>
          (case LoadConsensusParams_ret env h of
             Inl err \<Rightarrow>
               (Returns None,
                say [LoadConsensusParams h,
                     LoggerError ''failed to fetch requested consensus params'' (Some err)] r)
           | Inr cp \<Rightarrow>
               (Returns None,
                say [LoadConsensusParams h,
                     ParamsChOut (reply (From envelope) (ParamsResponse h cp))] r))
      | ParamsResponse h cp \<Rightarrow>
          (case RLock (mtx r) of
             None \<Rightarrow> (Blocks, r)
           | Some m \<Rightarrow>
              (let r1 = r\<lparr>mtx := m\<rparr>;
                   r2 = (if stateProvider r1 = Some StateProviderP2P
                         then say [ParamsRecvChOffer cp] r1 else r1)
               in (Returns None, r2\<lparr>mtx := RUnlock (mtx r2)\<rparr>)))
      | _ \<Rightarrow> (Returns (Some (Errorf ''received unknown message: %T'' [])), r))"

datatype PeerStatus = PeerStatusUp | PeerStatusDown | PeerStatusOther

text \<open>\<open>processPeerUpdate\<close> for the peer \<open>node\<close> with the status \<open>st\<close>.\<close>

definition processPeerUpdate :: "Reactor \<Rightarrow> NodeID \<Rightarrow> PeerStatus \<Rightarrow> unit outcome \<times> Reactor" where
  "processPeerUpdate r node st =
     (let r0 = (case st of
                  PeerStatusUp \<Rightarrow> say [PeersAppend node] r
                | PeerStatusDown \<Rightarrow> say [PeersRemove node] r
                | PeerStatusOther \<Rightarrow> r)
      in case Lock (mtx r0) of
           None \<Rightarrow> (Blocks, r0)
         | Some m \<Rightarrow>
            (let r1 = r0\<lparr>mtx := m\<rparr> in
             if syncer r1 = None then (Returns (), r1\<lparr>mtx := Unlock (mtx r1)\<rparr>)
             else
               (let r2 = (case st of
                            PeerStatusUp \<Rightarrow>
                              say (SyncerAddPeer node #
                                   (if stateProvider r1 = Some StateProviderP2P
                                    then [AddProvider node (chainID r1)] else []))
                                (r1\<lparr>providers := (providers r1)(node \<mapsto> (node, chainID r1))\<rparr>)
                          | PeerStatusDown \<Rightarrow>
                              say [SyncerRemovePeer node]
                                (r1\<lparr>providers := (providers r1)(node := None)\<rparr>)
                          | PeerStatusOther \<Rightarrow> r1)
                in (Returns (), r2\<lparr>mtx := Unlock (mtx r2)\<rparr>))))"

subsection \<open>Properties of traces\<close>

text \<open>
  What \<open>sort.Slice\<close> promises for the order \<open>snapshot_less\<close>: the result holds the
  same elements, and no element is less than one before it. The order of elements that
  are neither less than the other is not fixed.
\<close>

definition sort_contract :: "app_env \<Rightarrow> bool" where
  "sort_contract env =
     (\<forall>xs. mset (sort_Slice env snapshot_less xs) = mset xs \<and>
           sorted_wrt (\<lambda>a b. \<not> snapshot_less b a) (sort_Slice env snapshot_less xs))"

text \<open>The envelope that advertises the snapshot \<open>s\<close> to the peer \<open>to\<close>.\<close>

definition advertise :: "NodeID \<Rightarrow> snapshot \<Rightarrow> call" where
  "advertise to s =
     SnapshotChOut \<lparr>From = [], To = to, Broadcast = False,
                    Message = SnapshotsResponse (snapshot.Height s) (snapshot.Format s)
                                (Chunks s) (snapshot.Hash s) (Metadata s)\<rparr>"


text \<open>
  Every signed header that the trace persists was persisted under a trusted block id
  with the header's own hash.
\<close>

definition persisted_ok :: "stores \<Rightarrow> call list \<Rightarrow> bool" where
  "persisted_ok env cs =
     list_all (\<lambda>c. case c of
                      SaveSignedHeader sh tid \<Rightarrow> HeaderHash env (Header sh) = BlockID.Hash tid
                    | _ \<Rightarrow> True) cs"

text \<open>The reactor when \<open>Sync\<close> has set up the syncer and released the mutex, for a reactor
  \<open>r\<close> whose mutex was free.\<close>

definition syncing :: "sync_env \<Rightarrow> Reactor \<Rightarrow> Reactor" where
  "syncing env r =
     r\<lparr>stateProvider := fst (NewStateProvider_ret env),
       log := log r @ [if UseP2P r
                       then NewP2PStateProvider (chainID r) (initialHeight r) (peers_All env)
                       else NewRPCStateProvider (chainID r) (initialHeight r)],
       syncer := Some (Syncer (fst (NewStateProvider_ret env))),
       mtx := Unlocked\<rparr>"

subsection \<open>Example values\<close>

text \<open>
  A toy chain for concrete runs: the hash of a header is the low byte of its height, the
  block at height \<open>h\<close> names \<open>ex_id (h - 1)\<close> as its last block id, and no store
  call fails.
\<close>

definition ex_stores :: stores where
  "ex_stores =
     \<lparr>HeaderHash = (\<lambda>h. [ucast (Header.Height h)]),
      SaveSignedHeader_ret = (\<lambda>sh tid. None),
      SaveValidatorSets_ret = (\<lambda>lo hi vs. None)\<rparr>"

definition ex_id :: "int64 \<Rightarrow> BlockID" where
  "ex_id h = \<lparr>BlockID.Hash = [ucast h], PartSetHeader = (1, [])\<rparr>"

definition ex_block :: "int64 \<Rightarrow> bytes \<Rightarrow> bytes \<Rightarrow> ValidatorSet \<Rightarrow> LightBlock" where
  "ex_block h vh nvh vs =
     \<lparr>SignedHeader =
        \<lparr>Header = \<lparr>Header.Height = h, LastBlockID = ex_id (h - 1),
                    ValidatorsHash = vh, NextValidatorsHash = nvh\<rparr>,
         Commit = []\<rparr>,
      ValidatorSet = vs\<rparr>"

definition ex_verifier :: "int64 \<Rightarrow> verifier" where
  "ex_verifier h =
     \<lparr>trustedBlockID = ex_id h, lastValidatorSet = None, lastChangeHeight = h, calls = []\<rparr>"

definition ex_state :: State where
  "ex_state =
     \<lparr>ChainID = ''c'', InitialHeight = 1, LastBlockHeight = 200,
      State.LastBlockID = ex_id 200, LastBlockTime = 5000,
      ConsensusParams = \<lparr>Evidence = \<lparr>MaxAgeNumBlocks = 100, MaxAgeDuration = 3000\<rparr>\<rparr>\<rparr>"

text \<open>
  A \<open>ValidateBasic\<close> that rejects an empty validator set, an insertion sort standing
  for \<open>sort.Slice\<close>, an application with a given list of snapshots whose chunk 0 is
  present and whose other chunks are missing, and a reactor with no sync in progress.
\<close>

definition ex_validateBasic :: "LightBlock \<Rightarrow> string \<Rightarrow> error option" where
  "ex_validateBasic b cid =
     (if ValidatorSet b = [] then Some (ErrNew ''missing validator set'') else None)"

fun insert_by :: "('a \<Rightarrow> 'a \<Rightarrow> bool) \<Rightarrow> 'a \<Rightarrow> 'a list \<Rightarrow> 'a list" where
  "insert_by lt x [] = [x]"
| "insert_by lt x (y # ys) =
     (if lt y x then y # insert_by lt x ys else x # y # ys)"

fun insertion_sort :: "('a \<Rightarrow> 'a \<Rightarrow> bool) \<Rightarrow> 'a list \<Rightarrow> 'a list" where
  "insertion_sort lt [] = []"
| "insertion_sort lt (x # xs) = insert_by lt x (insertion_sort lt xs)"

definition ex_snap :: "uint64 \<Rightarrow> uint32 \<Rightarrow> snapshot" where
  "ex_snap h f = \<lparr>snapshot.Height = h, Format = f, Chunks = 1, Hash = [], Metadata = []\<rparr>"

definition ex_app :: "snapshot list \<Rightarrow> app_env" where
  "ex_app snaps =
     \<lparr>sort_Slice = insertion_sort,
      ListSnapshots_ret = Inr snaps,
      LoadSnapshotChunk_ret = (\<lambda>h f i. Inr (if i = 0 then Some [1, 2] else None)),
      AddSnapshot_ret = (\<lambda>p s. None),
      AddChunk_ret = (\<lambda>c. None),
      LoadConsensusParams_ret = (\<lambda>h. Inl (ErrNew ''no params''))\<rparr>"

definition ex_reactor :: Reactor where
  "ex_reactor =
     \<lparr>chainID = ''c'', initialHeight = 1, UseP2P = True, mtx = Unlocked, syncer = None,
      providers = Map.empty, stateProvider = None, log = []\<rparr>"

definition ex_request :: "Message \<Rightarrow> Envelope" where
  "ex_request m = \<lparr>From = ''P'', To = [], Broadcast = False, Message = m\<rparr>"

text \<open>
  The calls of a \<open>Sync\<close>: two peers at the second tick, a state provider that can be
  made or not, a syncer that restores \<open>ex_state\<close>, and stores that do not fail.
\<close>

definition ex_sync_env :: "bool \<Rightarrow> event list \<Rightarrow> sync_env" where
  "ex_sync_env fails es =
     \<lparr>wait_ticks = [Tick 1, Tick 2],
      peers_All = [''A'', ''B''],
      NewStateProvider_ret =
        (if fails then (None, Some (ErrNew ''no witnesses'')) else (Some StateProviderP2P, None)),
      SyncAny_ret = (ex_state, [], None),
      Bootstrap_ret = (\<lambda>s. None),
      SaveSeenCommit_ret = (\<lambda>h c. None),
      backfill_stores = ex_stores,
      backfill_events = es\<rparr>"

section \<open>Theorems\<close>

lemmas channel_defs =
  SnapshotChannel_def ChunkChannel_def LightBlockChannel_def ParamsChannel_def
  snapshotMsgSize_def chunkMsgSize_def lightBlockMsgSize_def paramMsgSize_def

lemma dom_ChannelShims:
  "dom ChannelShims = {SnapshotChannel, ChunkChannel, LightBlockChannel, ParamsChannel}"
  by (auto simp: ChannelShims_def channel_defs)

text \<open>
  C9. There are four channel descriptors. They carry the ids 0x60 (snapshot), 0x61
  (chunk), 0x62 (light block) and 0x63 (params), the priorities 6, 3, 5 and 2, the
  maximum receive-message sizes 4,000,000, 16,000,000, 10,000,000 and 100,000 bytes, a
  receive buffer capacity of 128 each, and the send-queue capacities 10, 4, 10 and 10.
\<close>

theorem channel_descriptors:
  "ChannelShims 0x60 =
     Some \<lparr>ID = 0x60, Priority = 6, SendQueueCapacity = 10,
           RecvMessageCapacity = 4000000, RecvBufferCapacity = 128, MaxSendBytes = 400\<rparr> \<and>
   ChannelShims 0x61 =
     Some \<lparr>ID = 0x61, Priority = 3, SendQueueCapacity = 4,
           RecvMessageCapacity = 16000000, RecvBufferCapacity = 128, MaxSendBytes = 400\<rparr> \<and>
   ChannelShims 0x62 =
     Some \<lparr>ID = 0x62, Priority = 5, SendQueueCapacity = 10,
           RecvMessageCapacity = 10000000, RecvBufferCapacity = 128, MaxSendBytes = 400\<rparr> \<and>
   ChannelShims 0x63 =
     Some \<lparr>ID = 0x63, Priority = 2, SendQueueCapacity = 10,
           RecvMessageCapacity = 100000, RecvBufferCapacity = 128, MaxSendBytes = 400\<rparr> \<and>
   dom ChannelShims = {0x60, 0x61, 0x62, 0x63}"
  by (auto simp: ChannelShims_def channel_defs)

subsection \<open>Backfill: the hash check of the verifier\<close>

lemma persisted_ok_append:
  "persisted_ok env (cs @ ds) = (persisted_ok env cs \<and> persisted_ok env ds)"
  by (simp add: persisted_ok_def)






lemmas ex_defs = ex_stores_def ex_id_def ex_block_def ex_verifier_def





subsection \<open>Backfill: validator-set ranges\<close>

lemma verifyNext_validator_change:
  assumes "HeaderHash env (Header (SignedHeader (block resp))) = BlockID.Hash (trustedBlockID v)"
    and "SaveSignedHeader_ret env (SignedHeader (block resp)) (trustedBlockID v) = None"
    and "lastValidatorSet v \<noteq> None"
    and "ValidatorsHash (Header (SignedHeader (block resp))) \<noteq>
         NextValidatorsHash (Header (SignedHeader (block resp)))"
  shows "verifyNext env v resp =
     (case SaveValidatorSets_ret env (LightBlock_Height (block resp) + 1) (lastChangeHeight v)
             (lastValidatorSet v) of
        Some err \<Rightarrow>
          (Some err,
           emit [SaveSignedHeader (SignedHeader (block resp)) (trustedBlockID v),
                 SaveValidatorSets (LightBlock_Height (block resp) + 1) (lastChangeHeight v)
                   (lastValidatorSet v)] v)
      | None \<Rightarrow>
          (None,
           \<lparr>trustedBlockID = Header.LastBlockID (Header (SignedHeader (block resp))),
            lastValidatorSet = Some (ValidatorSet (block resp)),
            lastChangeHeight = LightBlock_Height (block resp),
            calls = calls v @
              [SaveSignedHeader (SignedHeader (block resp)) (trustedBlockID v),
               SaveValidatorSets (LightBlock_Height (block resp) + 1) (lastChangeHeight v)
                 (lastValidatorSet v),
               QueueSuccess (LightBlock_Height (block resp))]\<rparr>))"
  using assms
  by (simp add: verifyNext_def saveValidatorChange_def emit_def Let_def split: option.splits)

lemma verifyNext_no_validator_change:
  assumes "HeaderHash env (Header (SignedHeader (block resp))) = BlockID.Hash (trustedBlockID v)"
    and "SaveSignedHeader_ret env (SignedHeader (block resp)) (trustedBlockID v) = None"
    and "lastValidatorSet v = None \<or>
         ValidatorsHash (Header (SignedHeader (block resp))) =
         NextValidatorsHash (Header (SignedHeader (block resp)))"
  shows "verifyNext env v resp =
          (None,
           \<lparr>trustedBlockID = Header.LastBlockID (Header (SignedHeader (block resp))),
            lastValidatorSet = Some (ValidatorSet (block resp)),
            lastChangeHeight = lastChangeHeight v,
            calls = calls v @
              [SaveSignedHeader (SignedHeader (block resp)) (trustedBlockID v),
               QueueSuccess (LightBlock_Height (block resp))]\<rparr>)"
  using assms
  by (auto simp: verifyNext_def saveValidatorChange_def emit_def Let_def split: option.splits)

lemma queueDone_final_range:
  "queueDone env v None (Some t) =
     (Returns (SaveValidatorSets_ret env (LightBlock_Height t) (lastChangeHeight v)
                 (lastValidatorSet v)),
      emit [SaveValidatorSets (LightBlock_Height t) (lastChangeHeight v) (lastValidatorSet v)] v)"
  by (simp add: queueDone_def)

text \<open>
  C2 (amended). When a verified block passes the hash check and its signed header is
  saved, the validator-set check compares the \<open>ValidatorsHash\<close> and the
  \<open>NextValidatorsHash\<close> of that block itself (the block being verified, not the
  block verified before it). If an earlier block was verified (\<open>lastValidatorSet\<close> is
  set) and the two hashes differ, \<open>SaveValidatorSets\<close> is called with the previous
  validator set for the heights from the block's height plus one to \<open>lastChangeHeight\<close>,
  and when that call succeeds \<open>lastChangeHeight\<close> becomes the block's height.
  Otherwise no validator set is saved and \<open>lastChangeHeight\<close> stays. When the queue
  is done without error, a last \<open>SaveValidatorSets\<close> covers the heights from the
  terminal block's height to \<open>lastChangeHeight\<close>, and its result is returned; when
  the queue is done with an error, that error is returned and nothing is saved.
\<close>

theorem backfill_validator_sets:
  "(HeaderHash env (Header (SignedHeader (block resp))) = BlockID.Hash (trustedBlockID v) \<and>
    SaveSignedHeader_ret env (SignedHeader (block resp)) (trustedBlockID v) = None \<and>
    lastValidatorSet v \<noteq> None \<and>
    ValidatorsHash (Header (SignedHeader (block resp))) \<noteq>
      NextValidatorsHash (Header (SignedHeader (block resp))) \<longrightarrow>
    verifyNext env v resp =
     (case SaveValidatorSets_ret env (LightBlock_Height (block resp) + 1) (lastChangeHeight v)
             (lastValidatorSet v) of
        Some err \<Rightarrow>
          (Some err,
           emit [SaveSignedHeader (SignedHeader (block resp)) (trustedBlockID v),
                 SaveValidatorSets (LightBlock_Height (block resp) + 1) (lastChangeHeight v)
                   (lastValidatorSet v)] v)
      | None \<Rightarrow>
          (None,
           \<lparr>trustedBlockID = Header.LastBlockID (Header (SignedHeader (block resp))),
            lastValidatorSet = Some (ValidatorSet (block resp)),
            lastChangeHeight = LightBlock_Height (block resp),
            calls = calls v @
              [SaveSignedHeader (SignedHeader (block resp)) (trustedBlockID v),
               SaveValidatorSets (LightBlock_Height (block resp) + 1) (lastChangeHeight v)
                 (lastValidatorSet v),
               QueueSuccess (LightBlock_Height (block resp))]\<rparr>))) \<and>
   (HeaderHash env (Header (SignedHeader (block resp))) = BlockID.Hash (trustedBlockID v) \<and>
    SaveSignedHeader_ret env (SignedHeader (block resp)) (trustedBlockID v) = None \<and>
    (lastValidatorSet v = None \<or>
     ValidatorsHash (Header (SignedHeader (block resp))) =
       NextValidatorsHash (Header (SignedHeader (block resp)))) \<longrightarrow>
    verifyNext env v resp =
          (None,
           \<lparr>trustedBlockID = Header.LastBlockID (Header (SignedHeader (block resp))),
            lastValidatorSet = Some (ValidatorSet (block resp)),
            lastChangeHeight = lastChangeHeight v,
            calls = calls v @
              [SaveSignedHeader (SignedHeader (block resp)) (trustedBlockID v),
               QueueSuccess (LightBlock_Height (block resp))]\<rparr>)) \<and>
   verifyLoop env v (QueueDone None (Some t) # es) =
     (Returns (SaveValidatorSets_ret env (LightBlock_Height t) (lastChangeHeight v)
                 (lastValidatorSet v)),
      emit [SaveValidatorSets (LightBlock_Height t) (lastChangeHeight v) (lastValidatorSet v)] v) \<and>
   verifyLoop env v (QueueDone (Some err) terminal # es) = (Returns (Some err), v)"
  apply (intro conjI impI)
     apply (elim conjE)
     apply (erule (3) verifyNext_validator_change)
    apply (elim conjE)
    apply (erule (2) verifyNext_no_validator_change)
   apply (simp add: queueDone_final_range)
  apply (simp add: queueDone_def)
  done

theorem backfill_validator_sets_witness:
  "verifyNext ex_stores
     \<lparr>trustedBlockID = ex_id 9, lastValidatorSet = Some [(''a'', 1)], lastChangeHeight = 10,
      calls = []\<rparr>
     \<lparr>block = ex_block 9 [1] [2] [(''b'', 1)], peer = ''B''\<rparr> =
     (None,
      \<lparr>trustedBlockID = ex_id 8, lastValidatorSet = Some [(''b'', 1)], lastChangeHeight = 9,
       calls = [SaveSignedHeader (SignedHeader (ex_block 9 [1] [2] [(''b'', 1)])) (ex_id 9),
                SaveValidatorSets 10 10 (Some [(''a'', 1)]),
                QueueSuccess 9]\<rparr>) \<and>
   verifyNext ex_stores (ex_verifier 10)
     \<lparr>block = ex_block 10 [1] [2] [(''a'', 1)], peer = ''A''\<rparr> =
     (None,
      \<lparr>trustedBlockID = ex_id 9, lastValidatorSet = Some [(''a'', 1)], lastChangeHeight = 10,
       calls = [SaveSignedHeader (SignedHeader (ex_block 10 [1] [2] [(''a'', 1)])) (ex_id 10),
                QueueSuccess 10]\<rparr>)"
  using backfill_validator_sets [of ex_stores
      "\<lparr>block = ex_block 9 [1] [2] [(''b'', 1)], peer = ''B''\<rparr>"
      "\<lparr>trustedBlockID = ex_id 9, lastValidatorSet = Some [(''a'', 1)], lastChangeHeight = 10,
        calls = []\<rparr>"]
    backfill_validator_sets [of ex_stores
      "\<lparr>block = ex_block 10 [1] [2] [(''a'', 1)], peer = ''A''\<rparr>" "ex_verifier 10"]
  by (simp add: ex_defs)

text \<open>
  Read with the hashes of the previously verified block compared, the statement fails.
  On the toy chain the block at height 10 has different hashes and the block at height
  9 has equal ones: when 9 is verified after 10, a previous block exists whose hashes
  differ, and no validator set is saved.
\<close>

theorem backfill_validator_sets_counterexample:
  "ValidatorsHash (Header (SignedHeader (ex_block 10 [1] [2] [(''a'', 1)]))) \<noteq>
     NextValidatorsHash (Header (SignedHeader (ex_block 10 [1] [2] [(''a'', 1)]))) \<and>
   verifyLoop ex_stores (ex_verifier 10)
     [VerifyNext \<lparr>block = ex_block 10 [1] [2] [(''a'', 1)], peer = ''A''\<rparr>] =
     (Blocks,
      \<lparr>trustedBlockID = ex_id 9, lastValidatorSet = Some [(''a'', 1)], lastChangeHeight = 10,
       calls = [SaveSignedHeader (SignedHeader (ex_block 10 [1] [2] [(''a'', 1)])) (ex_id 10),
                QueueSuccess 10]\<rparr>) \<and>
   verifyLoop ex_stores (ex_verifier 10)
     [VerifyNext \<lparr>block = ex_block 10 [1] [2] [(''a'', 1)], peer = ''A''\<rparr>,
      VerifyNext \<lparr>block = ex_block 9 [1] [1] [(''b'', 1)], peer = ''B''\<rparr>] =
     (Blocks,
      \<lparr>trustedBlockID = ex_id 8, lastValidatorSet = Some [(''b'', 1)], lastChangeHeight = 10,
       calls = [SaveSignedHeader (SignedHeader (ex_block 10 [1] [2] [(''a'', 1)])) (ex_id 10),
                QueueSuccess 10,
                SaveSignedHeader (SignedHeader (ex_block 9 [1] [1] [(''b'', 1)])) (ex_id 9),
                QueueSuccess 9]\<rparr>)"
  by (simp add: ex_defs verifyNext_def saveValidatorChange_def emit_def Let_def)

subsection \<open>Backfill: the range fetched\<close>





subsection \<open>Backfill: one pass of a fetch worker\<close>

text \<open>
  C4. In every pass of a fetch worker the popped peer is appended back to the peer list
  right after the dispatcher call, whatever it returned. If the error is a context
  cancellation the worker returns. Any other error makes it retry the height (and sleep
  when no peer is connected) without removing the peer. A nil light block makes it retry
  the height and remove the peer. A block that fails \<open>ValidateBasic\<close> or has another
  height than the one requested makes it retry the height and send a peer error naming
  the peer. Otherwise the block is added to the queue.
\<close>

theorem fetchBlock_cases:
  "(\<exists>cs. snd (fetchBlock vb cid h p lb err) =
           [PeersPop p, DispatcherLightBlock h p, PeersAppend p] @ cs) \<and>
   (errors_Is err Canceled \<longrightarrow>
      fetchBlock vb cid h p lb err =
        (True, [PeersPop p, DispatcherLightBlock h p, PeersAppend p])) \<and>
   (\<not> errors_Is err Canceled \<and> err \<noteq> None \<longrightarrow>
      fetchBlock vb cid h p lb err =
        (False,
         [PeersPop p, DispatcherLightBlock h p, PeersAppend p, QueueRetry h] @
         (if errors_Is err ErrNoConnectedPeers then [Sleep sleepTime] else [])) \<and>
      PeersRemove p \<notin> set (snd (fetchBlock vb cid h p lb err))) \<and>
   (err = None \<and> lb = None \<longrightarrow>
      fetchBlock vb cid h p lb err =
        (False,
         [PeersPop p, DispatcherLightBlock h p, PeersAppend p, QueueRetry h, PeersRemove p])) \<and>
   (err = None \<and> lb = Some b \<and> (vb b cid \<noteq> None \<or> LightBlock_Height b \<noteq> h) \<longrightarrow>
      fetchBlock vb cid h p lb err =
        (False,
         [PeersPop p, DispatcherLightBlock h p, PeersAppend p, QueueRetry h,
          BlockChError p (Errorw ''received invalid light block'' (vb b cid))])) \<and>
   (err = None \<and> lb = Some b \<and> vb b cid = None \<and> LightBlock_Height b = h \<longrightarrow>
      fetchBlock vb cid h p lb err =
        (False,
         [PeersPop p, DispatcherLightBlock h p, PeersAppend p,
          QueueAdd \<lparr>block = b, peer = p\<rparr>]))"
proof (intro conjI impI)
  show "\<exists>cs. snd (fetchBlock vb cid h p lb err) =
           [PeersPop p, DispatcherLightBlock h p, PeersAppend p] @ cs"
    by (simp add: fetchBlock_def Let_def split: option.split)
qed (auto simp: fetchBlock_def Let_def)

theorem fetchBlock_cases_witness:
  "fetchBlock ex_validateBasic ''c'' 7 ''A'' None (Some (Errorw ''request'' (Some Canceled))) =
     (True, [PeersPop ''A'', DispatcherLightBlock 7 ''A'', PeersAppend ''A'']) \<and>
   fetchBlock ex_validateBasic ''c'' 7 ''A'' None (Some DeadlineExceeded) =
     (False, [PeersPop ''A'', DispatcherLightBlock 7 ''A'', PeersAppend ''A'', QueueRetry 7]) \<and>
   fetchBlock ex_validateBasic ''c'' 7 ''A'' None None =
     (False, [PeersPop ''A'', DispatcherLightBlock 7 ''A'', PeersAppend ''A'', QueueRetry 7,
              PeersRemove ''A'']) \<and>
   fetchBlock ex_validateBasic ''c'' 7 ''A'' (Some (ex_block 8 [1] [1] [(''a'', 1)])) None =
     (False, [PeersPop ''A'', DispatcherLightBlock 7 ''A'', PeersAppend ''A'', QueueRetry 7,
              BlockChError ''A'' (Errorw ''received invalid light block'' None)]) \<and>
   fetchBlock ex_validateBasic ''c'' 7 ''A'' (Some (ex_block 7 [1] [1] [(''a'', 1)])) None =
     (False, [PeersPop ''A'', DispatcherLightBlock 7 ''A'', PeersAppend ''A'',
              QueueAdd \<lparr>block = ex_block 7 [1] [1] [(''a'', 1)], peer = ''A''\<rparr>])"
  using fetchBlock_cases [of ex_validateBasic "''c''" 7 "''A''" None
      "Some (Errorw ''request'' (Some Canceled))"]
    fetchBlock_cases [of ex_validateBasic "''c''" 7 "''A''" None "Some DeadlineExceeded"]
    fetchBlock_cases [of ex_validateBasic "''c''" 7 "''A''" None None]
    fetchBlock_cases [of ex_validateBasic "''c''" 7 "''A''"
      "Some (ex_block 8 [1] [1] [(''a'', 1)])" None "ex_block 8 [1] [1] [(''a'', 1)]"]
    fetchBlock_cases [of ex_validateBasic "''c''" 7 "''A''"
      "Some (ex_block 7 [1] [1] [(''a'', 1)])" None "ex_block 7 [1] [1] [(''a'', 1)]"]
  by (simp add: ex_validateBasic_def ex_block_def)

subsection \<open>Serving chunks\<close>

text \<open>
  C8. On a \<open>ChunkRequest\<close> for which the application's \<open>LoadSnapshotChunk\<close> succeeds
  the reactor sends exactly one \<open>ChunkResponse\<close>, to the sender of the request, with the
  same height, format and index, the chunk returned, and \<open>Missing\<close> true exactly when
  that chunk is nil.
\<close>

theorem chunk_request_reply:
  "Message envelope = ChunkRequest h f i \<and> LoadSnapshotChunk_ret env h f i = Inr c \<longrightarrow>
     handleChunkMessage env r envelope =
       (Returns None,
        r\<lparr>log := log r @
           [LoadSnapshotChunkSync h f i,
            ChunkChOut \<lparr>From = [], To = From envelope, Broadcast = False,
                        Message = ChunkResponse h f i c (c = None)\<rparr>]\<rparr>)"
  by (simp add: handleChunkMessage_def say_def reply_def)

theorem chunk_request_reply_witness:
  "handleChunkMessage (ex_app []) ex_reactor (ex_request (ChunkRequest 5 1 0)) =
     (Returns None,
      ex_reactor\<lparr>log :=
        [LoadSnapshotChunkSync 5 1 0,
         ChunkChOut \<lparr>From = [], To = ''P'', Broadcast = False,
                     Message = ChunkResponse 5 1 0 (Some [1, 2]) False\<rparr>]\<rparr>) \<and>
   handleChunkMessage (ex_app []) ex_reactor (ex_request (ChunkRequest 5 1 3)) =
     (Returns None,
      ex_reactor\<lparr>log :=
        [LoadSnapshotChunkSync 5 1 3,
         ChunkChOut \<lparr>From = [], To = ''P'', Broadcast = False,
                     Message = ChunkResponse 5 1 3 None True\<rparr>]\<rparr>)"
  using chunk_request_reply [of "ex_request (ChunkRequest 5 1 0)" 5 1 0 "ex_app []"
      "Some [1, 2]" ex_reactor]
    chunk_request_reply [of "ex_request (ChunkRequest 5 1 3)" 5 1 3 "ex_app []" None ex_reactor]
  by (simp add: ex_request_def ex_app_def ex_reactor_def)

subsection \<open>Serving snapshots\<close>

lemma snapshot_less_iff:
  "(\<not> snapshot_less b a) =
     (snapshot.Height a > snapshot.Height b \<or>
      (snapshot.Height a = snapshot.Height b \<and> snapshot.Format a \<ge> snapshot.Format b))"
  by (auto simp: snapshot_less_def)

lemma snapshot_less_asym: "snapshot_less a b \<Longrightarrow> \<not> snapshot_less b a"
  by (auto simp: snapshot_less_def split: if_splits)

lemma snapshot_le_trans:
  "\<not> snapshot_less b a \<Longrightarrow> \<not> snapshot_less c b \<Longrightarrow> \<not> snapshot_less c a"
  unfolding snapshot_less_iff by auto

lemma mset_insert_by: "mset (insert_by lt x xs) = add_mset x (mset xs)"
  by (induction xs) auto

lemma mset_insertion_sort: "mset (insertion_sort lt xs) = mset xs"
  by (induction xs) (auto simp: mset_insert_by)

lemma set_insert_by: "set (insert_by lt x xs) = insert x (set xs)"
  by (induction xs) auto

lemma sorted_insert_by:
  "sorted_wrt (\<lambda>a b. \<not> snapshot_less b a) xs \<Longrightarrow>
   sorted_wrt (\<lambda>a b. \<not> snapshot_less b a) (insert_by snapshot_less x xs)"
proof (induction xs)
  case Nil
  then show ?case by simp
next
  case (Cons y ys)
  show ?case
  proof (cases "snapshot_less y x")
    case True
    with Cons show ?thesis
      by (auto simp: set_insert_by dest: snapshot_less_asym)
  next
    case False
    with Cons.prems have "\<forall>z \<in> set ys. \<not> snapshot_less z x"
      using snapshot_le_trans [of y x] by auto
    with False Cons.prems show ?thesis by simp
  qed
qed

lemma sorted_insertion_sort:
  "sorted_wrt (\<lambda>a b. \<not> snapshot_less b a) (insertion_sort snapshot_less xs)"
  by (induction xs) (auto simp: sorted_insert_by)

lemma snapshot_copy [simp]:
  "\<lparr>snapshot.Height = snapshot.Height s, Format = snapshot.Format s, Chunks = Chunks s,
    Hash = snapshot.Hash s, Metadata = Metadata (s :: snapshot)\<rparr> = s"
  by (cases s) simp

lemma collectSnapshots_take: "collectSnapshots i xs = take (recentSnapshots - i) xs"
proof (induction xs arbitrary: i)
  case Nil
  then show ?case by simp
next
  case (Cons s ss)
  show ?case
  proof (cases "i \<ge> recentSnapshots")
    case True
    then show ?thesis by simp
  next
    case False
    then have "recentSnapshots - i = Suc (recentSnapshots - Suc i)" by simp
    with False Cons show ?thesis by simp
  qed
qed

lemma take_sorted_props:
  assumes "mset ys = mset xs" "sorted_wrt (\<lambda>a b. \<not> snapshot_less b a) ys"
  shows "length (take n ys) = min n (length xs)"
    and "mset (take n ys) \<subseteq># mset xs"
    and "sorted_wrt (\<lambda>a b. \<not> snapshot_less b a) (take n ys)"
    and "\<forall>x \<in># mset xs - mset (take n ys). \<forall>y \<in> set (take n ys). \<not> snapshot_less x y"
proof -
  have len: "length ys = length xs" using assms(1) by (metis size_mset)
  then show "length (take n ys) = min n (length xs)" by (simp add: min.commute)
  have split: "mset xs = mset (take n ys) + mset (drop n ys)"
    using assms(1) by (metis append_take_drop_id mset_append)
  then show "mset (take n ys) \<subseteq># mset xs" by simp
  show "sorted_wrt (\<lambda>a b. \<not> snapshot_less b a) (take n ys)"
    using assms(2) by (rule sorted_wrt_take)
  have "sorted_wrt (\<lambda>a b. \<not> snapshot_less b a) (take n ys @ drop n ys)"
    using assms(2) by simp
  then have "\<forall>y \<in> set (take n ys). \<forall>x \<in> set (drop n ys). \<not> snapshot_less x y"
    unfolding sorted_wrt_append by blast
  moreover have "mset xs - mset (take n ys) = mset (drop n ys)" using split by simp
  ultimately show "\<forall>x \<in># mset xs - mset (take n ys). \<forall>y \<in> set (take n ys). \<not> snapshot_less x y"
    by auto
qed

lemma handleSnapshotMessage_request:
  assumes "Message envelope = SnapshotsRequest" "ListSnapshots_ret env = Inr snaps"
  shows "handleSnapshotMessage env r envelope =
           (Returns None,
            r\<lparr>log := log r @ ListSnapshotsSync #
               map (advertise (From envelope))
                 (take 10 (sort_Slice env snapshot_less snaps))\<rparr>)"
proof -
  have "advertise (From envelope) =
        (\<lambda>s. SnapshotChOut
                (reply (From envelope)
                   (SnapshotsResponse (snapshot.Height s) (snapshot.Format s)
                      (Chunks s) (snapshot.Hash s) (Metadata s))))"
    by (rule ext) (simp add: advertise_def reply_def)
  with assms show ?thesis
    by (simp add: handleSnapshotMessage_def Reactor_recentSnapshots_def
        collectSnapshots_take say_def recentSnapshots_def)
qed

text \<open>
  C7. On a \<open>SnapshotsRequest\<close>, when \<open>ListSnapshots\<close> succeeds with the list \<open>snaps\<close>,
  the reactor sends one \<open>SnapshotsResponse\<close> per snapshot of a list \<open>out\<close>, each to the
  sender of the request: \<open>out\<close> has \<open>min 10 (length snaps)\<close> elements, all taken from
  \<open>snaps\<close>, in descending order of height and, for equal heights, of format, and no
  snapshot left out comes before one that is sent. When \<open>ListSnapshots\<close> fails nothing
  is sent. (\<open>sort.Slice\<close> is anything that meets \<open>sort_contract\<close>.)
\<close>

theorem snapshots_request_reply:
  assumes "sort_contract env" and "Message envelope = SnapshotsRequest"
  shows
  "(\<forall>snaps. ListSnapshots_ret env = Inr snaps \<longrightarrow>
      (\<exists>out. handleSnapshotMessage env r envelope =
               (Returns None,
                r\<lparr>log := log r @ ListSnapshotsSync # map (advertise (From envelope)) out\<rparr>) \<and>
             length out = min 10 (length snaps) \<and>
             mset out \<subseteq># mset snaps \<and>
             sorted_wrt
               (\<lambda>a b. snapshot.Height a > snapshot.Height b \<or>
                      (snapshot.Height a = snapshot.Height b \<and>
                       snapshot.Format a \<ge> snapshot.Format b)) out \<and>
             (\<forall>x \<in># mset snaps - mset out. \<forall>y \<in> set out. \<not> snapshot_less x y))) \<and>
   (\<forall>err. ListSnapshots_ret env = Inl err \<longrightarrow>
      handleSnapshotMessage env r envelope =
        (Returns None,
         r\<lparr>log := log r @
            [ListSnapshotsSync, LoggerError ''failed to fetch snapshots'' (Some err)]\<rparr>))"
proof (intro conjI allI impI)
  fix snaps
  assume ok: "ListSnapshots_ret env = Inr snaps"
  let ?ys = "sort_Slice env snapshot_less snaps"
  let ?out = "take 10 ?ys"
  have c: "mset ?ys = mset snaps" "sorted_wrt (\<lambda>a b. \<not> snapshot_less b a) ?ys"
    using assms(1) by (simp_all add: sort_contract_def)
  have s: "sorted_wrt
               (\<lambda>a b. snapshot.Height a > snapshot.Height b \<or>
                      (snapshot.Height a = snapshot.Height b \<and>
                       snapshot.Format a \<ge> snapshot.Format b)) ?out"
    using take_sorted_props(3)[OF c, of 10] unfolding snapshot_less_iff .
  show "\<exists>out. handleSnapshotMessage env r envelope =
               (Returns None,
                r\<lparr>log := log r @ ListSnapshotsSync # map (advertise (From envelope)) out\<rparr>) \<and>
             length out = min 10 (length snaps) \<and>
             mset out \<subseteq># mset snaps \<and>
             sorted_wrt
               (\<lambda>a b. snapshot.Height a > snapshot.Height b \<or>
                      (snapshot.Height a = snapshot.Height b \<and>
                       snapshot.Format a \<ge> snapshot.Format b)) out \<and>
             (\<forall>x \<in># mset snaps - mset out. \<forall>y \<in> set out. \<not> snapshot_less x y)"
    apply (rule exI[of _ ?out])
    apply (intro conjI)
        apply (rule handleSnapshotMessage_request[OF assms(2) ok])
       apply (rule take_sorted_props(1)[OF c])
      apply (rule take_sorted_props(2)[OF c])
     apply (rule s)
    apply (rule take_sorted_props(4)[OF c])
    done
next
  fix err
  assume "ListSnapshots_ret env = Inl err"
  with assms(2) show "handleSnapshotMessage env r envelope =
        (Returns None,
         r\<lparr>log := log r @
            [ListSnapshotsSync, LoggerError ''failed to fetch snapshots'' (Some err)]\<rparr>)"
    by (simp add: handleSnapshotMessage_def Reactor_recentSnapshots_def say_def)
qed

lemma sort_contract_ex_app: "sort_contract (ex_app snaps)"
  by (simp add: sort_contract_def ex_app_def mset_insertion_sort sorted_insertion_sort)

theorem snapshots_request_reply_witness:
  "sort_contract
     (ex_app [ex_snap 3 1, ex_snap 7 1, ex_snap 7 2, ex_snap 1 1, ex_snap 9 1, ex_snap 2 1,
              ex_snap 4 1, ex_snap 5 1, ex_snap 6 1, ex_snap 8 1, ex_snap 9 3, ex_snap 1 2]) \<and>
   handleSnapshotMessage
     (ex_app [ex_snap 3 1, ex_snap 7 1, ex_snap 7 2, ex_snap 1 1, ex_snap 9 1, ex_snap 2 1,
              ex_snap 4 1, ex_snap 5 1, ex_snap 6 1, ex_snap 8 1, ex_snap 9 3, ex_snap 1 2])
     ex_reactor (ex_request SnapshotsRequest) =
     (Returns None,
      ex_reactor\<lparr>log :=
        ListSnapshotsSync #
        map (advertise ''P'')
          [ex_snap 9 3, ex_snap 9 1, ex_snap 8 1, ex_snap 7 2, ex_snap 7 1, ex_snap 6 1,
           ex_snap 5 1, ex_snap 4 1, ex_snap 3 1, ex_snap 2 1]\<rparr>)"
  using sort_contract_ex_app
    snapshots_request_reply [OF sort_contract_ex_app, of "ex_request SnapshotsRequest"
      "[ex_snap 3 1, ex_snap 7 1, ex_snap 7 2, ex_snap 1 1, ex_snap 9 1, ex_snap 2 1,
        ex_snap 4 1, ex_snap 5 1, ex_snap 6 1, ex_snap 8 1, ex_snap 9 3, ex_snap 1 2]"
      ex_reactor]
  by (simp add: ex_request_def handleSnapshotMessage_request ex_app_def ex_snap_def
      snapshot_less_def ex_reactor_def)

subsection \<open>Sync\<close>

lemma Sync_in_progress:
  assumes "syncer r \<noteq> None"
  shows "Sync env r =
     (if waitForEnoughPeers (wait_ticks env) 2 \<and> mtx r = Unlocked
      then (Returns (emptyState, Some (ErrNew ''a state sync is already in progress'')), r)
      else (Blocks, r))"
  using assms by (auto simp: Sync_def Lock_def Unlock_def Let_def)



lemma initStateProvider_fails:
  assumes "snd (NewStateProvider_ret env) = Some e"
  shows "initStateProvider env r cid initial =
     (Some (Errorw (if UseP2P r then ''failed to initialize P2P state provider''
                    else ''failed to initialize RPC state provider'') (Some e)),
      say [if UseP2P r then NewP2PStateProvider cid initial (peers_All env)
           else NewRPCStateProvider cid initial]
        (r\<lparr>stateProvider := fst (NewStateProvider_ret env)\<rparr>))"
  using assms by (cases "NewStateProvider_ret env") (simp add: initStateProvider_def)

lemma initStateProvider_ok:
  assumes "snd (NewStateProvider_ret env) = None"
  shows "initStateProvider env r cid initial =
     (None,
      say [if UseP2P r then NewP2PStateProvider cid initial (peers_All env)
           else NewRPCStateProvider cid initial]
        (r\<lparr>stateProvider := fst (NewStateProvider_ret env)\<rparr>))"
  using assms by (cases "NewStateProvider_ret env") (simp add: initStateProvider_def)

lemma Sync_init_fails:
  assumes "waitForEnoughPeers (wait_ticks env) 2" "mtx r = Unlocked" "syncer r = None"
    "snd (NewStateProvider_ret env) = Some e"
  shows "Sync env r =
     (Returns (emptyState,
        Some (Errorw (if UseP2P r then ''failed to initialize P2P state provider''
                      else ''failed to initialize RPC state provider'') (Some e))),
      r\<lparr>mtx := Locked, stateProvider := fst (NewStateProvider_ret env),
        log := log r @ [if UseP2P r
                        then NewP2PStateProvider (chainID r) (initialHeight r) (peers_All env)
                        else NewRPCStateProvider (chainID r) (initialHeight r)]\<rparr>)"
  using assms
  by (simp add: Sync_def Lock_def Let_def initStateProvider_fails say_def)

lemma syncBody_fields:
  "mtx (snd (syncBody env r)) = mtx r \<and> syncer (snd (syncBody env r)) = syncer r \<and>
   stateProvider (snd (syncBody env r)) = stateProvider r"
  by (cases "SyncAny_ret env")
    (auto simp: syncBody_def Let_def say_def split: prod.splits outcome.splits)

lemma Sync_init_ok:
  assumes "waitForEnoughPeers (wait_ticks env) 2" "mtx r = Unlocked" "syncer r = None"
    "snd (NewStateProvider_ret env) = None"
  shows "Sync env r =
     (case syncBody env (syncing env r) of
        (Blocks, r5) \<Rightarrow> (Blocks, r5)
      | (res, r5) \<Rightarrow> (res, r5\<lparr>mtx := Unlocked, syncer := None, stateProvider := None\<rparr>))"
proof -
  obtain res r5 where b: "syncBody env (syncing env r) = (res, r5)" by fastforce
  have "mtx r5 = Unlocked"
    using syncBody_fields[of env "syncing env r"] b by (simp add: syncing_def)
  then have d: "syncDeferred r5 = Some (r5\<lparr>mtx := Unlocked, syncer := None, stateProvider := None\<rparr>)"
    by (simp add: syncDeferred_def Lock_def Unlock_def)
  have "Sync env r =
      (case syncBody env (syncing env r) of
         (Blocks, r5) \<Rightarrow> (Blocks, r5)
       | (res, r5) \<Rightarrow>
          (case syncDeferred r5 of None \<Rightarrow> (Blocks, r5) | Some r6 \<Rightarrow> (res, r6)))"
    using assms
    by (simp add: Sync_def Lock_def Unlock_def Let_def initStateProvider_ok say_def syncing_def)
  with b d show ?thesis by (cases res) simp_all
qed

lemma syncBody_backfill:
  assumes "SyncAny_ret env = (state, commit, None)" "Bootstrap_ret env state = None"
    "SaveSeenCommit_ret env (LastBlockHeight state) commit = None"
    "Backfill (backfill_stores env) state (backfill_events env) = (Returns berr, v)"
  shows "syncBody env r =
     (Returns (state, None),
      say ([SyncAny, Bootstrap state, SaveSeenCommit (LastBlockHeight state) commit] @ calls v @
           (if berr \<noteq> None
            then [LoggerError ''backfill failed. Proceeding optimistically...'' berr]
            else [])) r)"
  using assms by (simp add: syncBody_def say_def)

text \<open>
  C5. When the state provider is set up and \<open>SyncAny\<close>, \<open>Bootstrap\<close> and
  \<open>SaveSeenCommit\<close> succeed, and \<open>Backfill\<close> returns, \<open>Sync\<close> returns the new state
  and a nil error whatever \<open>Backfill\<close> returned: its error, if any, is logged as the
  last call and nothing else is done with it. The syncer and state provider fields are
  cleared and the mutex is free.
\<close>

theorem Sync_swallows_backfill_error:
  "waitForEnoughPeers (wait_ticks env) 2 \<and> mtx r = Unlocked \<and> syncer r = None \<and>
   snd (NewStateProvider_ret env) = None \<and>
   SyncAny_ret env = (state, commit, None) \<and> Bootstrap_ret env state = None \<and>
   SaveSeenCommit_ret env (LastBlockHeight state) commit = None \<and>
   Backfill (backfill_stores env) state (backfill_events env) = (Returns berr, v) \<longrightarrow>
     fst (Sync env r) = Returns (state, None) \<and>
     log (snd (Sync env r)) =
       log r @
       [if UseP2P r then NewP2PStateProvider (chainID r) (initialHeight r) (peers_All env)
        else NewRPCStateProvider (chainID r) (initialHeight r),
        SyncAny, Bootstrap state, SaveSeenCommit (LastBlockHeight state) commit] @
       calls v @
       (if berr \<noteq> None
        then [LoggerError ''backfill failed. Proceeding optimistically...'' berr] else []) \<and>
     syncer (snd (Sync env r)) = None \<and> stateProvider (snd (Sync env r)) = None \<and>
     mtx (snd (Sync env r)) = Unlocked"
proof (intro impI, elim conjE)
  assume a: "waitForEnoughPeers (wait_ticks env) 2" "mtx r = Unlocked" "syncer r = None"
    "snd (NewStateProvider_ret env) = None"
    and b: "SyncAny_ret env = (state, commit, None)" "Bootstrap_ret env state = None"
    "SaveSeenCommit_ret env (LastBlockHeight state) commit = None"
    "Backfill (backfill_stores env) state (backfill_events env) = (Returns berr, v)"
  show "fst (Sync env r) = Returns (state, None) \<and>
     log (snd (Sync env r)) =
       log r @
       [if UseP2P r then NewP2PStateProvider (chainID r) (initialHeight r) (peers_All env)
        else NewRPCStateProvider (chainID r) (initialHeight r),
        SyncAny, Bootstrap state, SaveSeenCommit (LastBlockHeight state) commit] @
       calls v @
       (if berr \<noteq> None
        then [LoggerError ''backfill failed. Proceeding optimistically...'' berr] else []) \<and>
     syncer (snd (Sync env r)) = None \<and> stateProvider (snd (Sync env r)) = None \<and>
     mtx (snd (Sync env r)) = Unlocked"
    unfolding Sync_init_ok[OF a] syncBody_backfill[OF b]
    by (simp add: say_def syncing_def)
qed

theorem Sync_swallows_backfill_error_witness:
  "Backfill ex_stores ex_state [QueueDone (Some (ErrNew ''max retries'')) None] =
     (Returns (Some (ErrNew ''max retries'')),
      \<lparr>trustedBlockID = ex_id 200, lastValidatorSet = None, lastChangeHeight = 200,
       calls = [NewBlockQueue 200 100 1 2000 20]\<rparr>) \<and>
   fst (Sync (ex_sync_env False [QueueDone (Some (ErrNew ''max retries'')) None]) ex_reactor) =
     Returns (ex_state, None) \<and>
   log (snd (Sync (ex_sync_env False [QueueDone (Some (ErrNew ''max retries'')) None])
               ex_reactor)) =
     [NewP2PStateProvider ''c'' 1 [''A'', ''B''], SyncAny, Bootstrap ex_state,
      SaveSeenCommit 200 [], NewBlockQueue 200 100 1 2000 20,
      LoggerError ''backfill failed. Proceeding optimistically...''
        (Some (ErrNew ''max retries''))]"
proof -
  have b: "Backfill ex_stores ex_state [QueueDone (Some (ErrNew ''max retries'')) None] =
     (Returns (Some (ErrNew ''max retries'')),
      \<lparr>trustedBlockID = ex_id 200, lastValidatorSet = None, lastChangeHeight = 200,
       calls = [NewBlockQueue 200 100 1 2000 20]\<rparr>)"
    by (simp add: Backfill_def backfill_def queueDone_def ex_state_def Time_Add_def Let_def
        word_sless_alt maxLightBlockRequestRetries_def)
  show ?thesis
    using b Sync_swallows_backfill_error
      [of "ex_sync_env False [QueueDone (Some (ErrNew ''max retries'')) None]" ex_reactor
        ex_state "[]" "Some (ErrNew ''max retries'')"
        "\<lparr>trustedBlockID = ex_id 200, lastValidatorSet = None, lastChangeHeight = 200,
          calls = [NewBlockQueue 200 100 1 2000 20]\<rparr>"]
    by (simp add: ex_sync_env_def ex_reactor_def ex_state_def)
qed

lemma Sync_releases:
  assumes "waitForEnoughPeers (wait_ticks env) 2" "mtx r = Unlocked"
    "syncer r \<noteq> None \<or> snd (NewStateProvider_ret env) = None"
  shows "mtx (snd (Sync env r)) = Unlocked"
proof (cases "syncer r")
  case (Some s)
  with assms show ?thesis by (simp add: Sync_in_progress)
next
  case None
  with assms have ok: "snd (NewStateProvider_ret env) = None" by simp
  obtain res r5 where b: "syncBody env (syncing env r) = (res, r5)" by fastforce
  have "mtx r5 = Unlocked"
    using syncBody_fields[of env "syncing env r"] b by (simp add: syncing_def)
  with b show ?thesis
    unfolding Sync_init_ok[OF assms(1,2) None ok] by (cases res) simp_all
qed

lemma locked_blocks:
  assumes "mtx r = Locked"
  shows "Sync env r = (Blocks, r)"
    and "fst (processPeerUpdate r node st) = Blocks"
    and "mtx (snd (processPeerUpdate r node st)) = Locked"
    and "handleSnapshotMessage app r (e\<lparr>Message := SnapshotsResponse h f c hash md\<rparr>) = (Blocks, r)"
    and "handleChunkMessage app r (e\<lparr>Message := ChunkResponse h f i ch missing\<rparr>) = (Blocks, r)"
    and "handleParamsMessage app r (e\<lparr>Message := ParamsResponse h' cp\<rparr>) = (Blocks, r)"
  using assms
  by (auto simp: Sync_def processPeerUpdate_def handleSnapshotMessage_def handleChunkMessage_def
      handleParamsMessage_def Lock_def RLock_def say_def Let_def split: PeerStatus.splits)

text \<open>
  C10. When \<open>initStateProvider\<close> fails, \<open>Sync\<close> returns the empty state and the
  wrapped error, the syncer field is still nil, and the mutex taken at entry is still
  held. The path that refuses a second sync and the paths after the syncer is set up
  leave the mutex free. With the mutex held, any \<open>Lock\<close> or \<open>RLock\<close> waits, and so every
  method of the reactor that takes the mutex (\<open>Sync\<close>, \<open>processPeerUpdate\<close>, and the
  handlers of \<open>SnapshotsResponse\<close>, \<open>ChunkResponse\<close> and \<open>ParamsResponse\<close>) never returns
  and leaves the mutex held.
\<close>

theorem Sync_init_failure_keeps_mutex:
  "(waitForEnoughPeers (wait_ticks env) 2 \<and> mtx r = Unlocked \<and> syncer r = None \<and>
    snd (NewStateProvider_ret env) = Some e \<longrightarrow>
      fst (Sync env r) =
        Returns (emptyState,
          Some (Errorw (if UseP2P r then ''failed to initialize P2P state provider''
                        else ''failed to initialize RPC state provider'') (Some e))) \<and>
      syncer (snd (Sync env r)) = None \<and> mtx (snd (Sync env r)) = Locked) \<and>
   (waitForEnoughPeers (wait_ticks env) 2 \<and> mtx r = Unlocked \<and>
    (syncer r \<noteq> None \<or> snd (NewStateProvider_ret env) = None) \<longrightarrow>
      mtx (snd (Sync env r)) = Unlocked) \<and>
   (mtx r = Locked \<longrightarrow>
      Lock (mtx r) = None \<and> RLock (mtx r) = None \<and>
      Sync env r = (Blocks, r) \<and>
      fst (processPeerUpdate r node st) = Blocks \<and>
      mtx (snd (processPeerUpdate r node st)) = Locked \<and>
      handleSnapshotMessage app r (ev\<lparr>Message := SnapshotsResponse h f c hash md\<rparr>) =
        (Blocks, r) \<and>
      handleChunkMessage app r (ev\<lparr>Message := ChunkResponse h f i ch missing\<rparr>) =
        (Blocks, r) \<and>
      handleParamsMessage app r (ev\<lparr>Message := ParamsResponse h' cp\<rparr>) = (Blocks, r))"
proof (intro conjI impI)
  assume a: "waitForEnoughPeers (wait_ticks env) 2 \<and> mtx r = Unlocked \<and> syncer r = None \<and>
    snd (NewStateProvider_ret env) = Some e"
  then have "Sync env r =
     (Returns (emptyState,
        Some (Errorw (if UseP2P r then ''failed to initialize P2P state provider''
                      else ''failed to initialize RPC state provider'') (Some e))),
      r\<lparr>mtx := Locked, stateProvider := fst (NewStateProvider_ret env),
        log := log r @ [if UseP2P r
                        then NewP2PStateProvider (chainID r) (initialHeight r) (peers_All env)
                        else NewRPCStateProvider (chainID r) (initialHeight r)]\<rparr>)"
    by (intro Sync_init_fails) simp_all
  with a show "fst (Sync env r) =
        Returns (emptyState,
          Some (Errorw (if UseP2P r then ''failed to initialize P2P state provider''
                        else ''failed to initialize RPC state provider'') (Some e)))"
    "syncer (snd (Sync env r)) = None" "mtx (snd (Sync env r)) = Locked"
    by simp_all
next
  assume "waitForEnoughPeers (wait_ticks env) 2 \<and> mtx r = Unlocked \<and>
    (syncer r \<noteq> None \<or> snd (NewStateProvider_ret env) = None)"
  then show "mtx (snd (Sync env r)) = Unlocked"
    by (intro Sync_releases) simp_all
next
  assume l: "mtx r = Locked"
  then show "Lock (mtx r) = None" "RLock (mtx r) = None"
    by (simp_all add: Lock_def RLock_def)
  from l show "Sync env r = (Blocks, r)" by (rule locked_blocks)
  from l show "fst (processPeerUpdate r node st) = Blocks" by (rule locked_blocks)
  from l show "mtx (snd (processPeerUpdate r node st)) = Locked" by (rule locked_blocks)
  from l show "handleSnapshotMessage app r (ev\<lparr>Message := SnapshotsResponse h f c hash md\<rparr>) =
        (Blocks, r)" by (rule locked_blocks)
  from l show "handleChunkMessage app r (ev\<lparr>Message := ChunkResponse h f i ch missing\<rparr>) =
        (Blocks, r)" by (rule locked_blocks)
  from l show "handleParamsMessage app r (ev\<lparr>Message := ParamsResponse h' cp\<rparr>) = (Blocks, r)"
    by (rule locked_blocks)
qed

theorem Sync_init_failure_keeps_mutex_witness:
  "Sync (ex_sync_env True []) ex_reactor =
     (Returns (emptyState,
        Some (Errorw ''failed to initialize P2P state provider''
                (Some (ErrNew ''no witnesses'')))),
      ex_reactor\<lparr>mtx := Locked, log := [NewP2PStateProvider ''c'' 1 [''A'', ''B'']]\<rparr>) \<and>
   Sync (ex_sync_env True [])
     (ex_reactor\<lparr>mtx := Locked, log := [NewP2PStateProvider ''c'' 1 [''A'', ''B'']]\<rparr>) =
     (Blocks, ex_reactor\<lparr>mtx := Locked, log := [NewP2PStateProvider ''c'' 1 [''A'', ''B'']]\<rparr>) \<and>
   mtx (snd (Sync (ex_sync_env False []) (ex_reactor\<lparr>syncer := Some (Syncer None)\<rparr>))) =
     Unlocked"
  using Sync_init_failure_keeps_mutex [where env = "ex_sync_env True []" and r = ex_reactor
      and e = "ErrNew ''no witnesses''"]
    Sync_init_failure_keeps_mutex [where env = "ex_sync_env False []"
      and r = "ex_reactor\<lparr>syncer := Some (Syncer None)\<rparr>"]
    Sync_init_failure_keeps_mutex [where env = "ex_sync_env True []"
      and r = "ex_reactor\<lparr>mtx := Locked,
                 log := [NewP2PStateProvider ''c'' 1 [''A'', ''B'']]\<rparr>"]
  by (simp add: ex_sync_env_def ex_reactor_def Sync_def Lock_def initStateProvider_def say_def)

end
